theory Spec2Isabelle
  imports Complex_Main
begin

section \<open>HydroGuard: the App component of src/app/index.tsx\<close>

text \<open>
  The file holds two revisions of the same React component \<open>App\<close>. The first polls
  an HTTP endpoint (\<open>fetchData\<close>, \<open>renderSensorData\<close>, the heart-rate chart); the
  second has the connection screen (\<open>scanForDevices\<close>). Both share the state
  variables, \<open>connectToDevice\<close>, \<open>disconnectDevice\<close>, \<open>toggleMonitoring\<close> and the
  monitoring effect. The model is the union of the two: one state with every
  \<open>useState\<close> variable, one function per handler.

  Every handler is a function from the component state to the new component state. What
  a handler does besides setting state (timers, the alert dialog, the HTTP request) is
  kept in a second record around the component state, \<open>world\<close>, further down. After
  every change of state React renders the component again; a render that throws
  unmounts it.
\<close>

subsection \<open>Data\<close>

text \<open>\<open>interface Device\<close>. The field \<open>id\<close> is written \<open>id'\<close>.\<close>

record Device =
  id' :: string
  name :: string
  signalStrength :: int

text \<open>
  The value \<open>await response.json()\<close> gives: any JSON value. A number is the value the
  parser produced. An object is the list of its properties, each key once.
\<close>

datatype json =
    JNull
  | JBool bool
  | JNum real
  | JStr string
  | JArr "json list"
  | JObj "(string \<times> json) list"

text \<open>
  \<open>interface ChartData\<close>: \<open>labels: string[]\<close> and
  \<open>datasets: {data: number[]}[]\<close>. The elements of \<open>data\<close> are declared numbers; what
  \<open>fetchData\<close> pushes is \<open>data.heart_rate?.red || 0\<close> of a value of type \<open>any\<close>, so
  the model keeps them as JSON values.
\<close>

record Dataset =
  data :: "json list"

record ChartData =
  labels :: "string list"
  datasets :: "Dataset list"

text \<open>The nine \<open>useState\<close> variables, with \<open>null\<close> as \<open>JNull\<close> and \<open>None\<close>.\<close>

record app_state =
  isConnected :: bool
  waterMovement :: int
  isMonitoring :: bool
  alertActive :: bool
  isScanning :: bool
  availableDevices :: "Device list"
  sensorData :: json
  error :: "string option"
  heartRateData :: ChartData

definition initial_state :: app_state where
  "initial_state =
     \<lparr> isConnected = False, waterMovement = 0, isMonitoring = False,
       alertActive = False, isScanning = False, availableDevices = [],
       sensorData = JNull, error = None,
       heartRateData = \<lparr> labels = [], datasets = [\<lparr> data = [] \<rparr>] \<rparr> \<rparr>"

subsection \<open>JavaScript on JSON values\<close>

text \<open>
  An exception that no \<open>catch\<close> of the component handles: a \<open>TypeError\<close> of the
  language, or the error React throws for a child that is a plain object ("Objects are
  not valid as a React child").
\<close>

datatype js_error = TypeError | InvalidReactChild

text \<open>Truthiness, as \<open>||\<close>, \<open>!\<close> and \<open>if\<close> use it. JSON has no \<open>NaN\<close>.\<close>

fun truthy :: "json \<Rightarrow> bool" where
  "truthy JNull = False"
| "truthy (JBool b) = b"
| "truthy (JNum x) = (x \<noteq> 0)"
| "truthy (JStr s) = (s \<noteq> [])"
| "truthy (JArr xs) = True"
| "truthy (JObj kvs) = True"

text \<open>
  \<open>v.k\<close> for a value \<open>v\<close> that is not \<open>null\<close> and a key \<open>k\<close> that no prototype
  defines (the source reads \<open>heart_rate\<close>, \<open>red\<close>, \<open>ir\<close>, \<open>mpu6050\<close>, the two
  sensors, \<open>x\<close>, \<open>y\<close>, \<open>z\<close> and \<open>temperature\<close>): the property of an object,
  \<open>undefined\<close> (\<open>None\<close>) when the object has none and on numbers, strings, booleans
  and arrays.
\<close>

fun member_js :: "json \<Rightarrow> string \<Rightarrow> json option" where
  "member_js (JObj kvs) k = map_of kvs k"
| "member_js v k = None"

text \<open>
  \<open>data.heart_rate?.red\<close>. Reading \<open>heart_rate\<close> of \<open>null\<close> throws; \<open>?.\<close> gives
  \<open>undefined\<close> when \<open>data.heart_rate\<close> is \<open>undefined\<close> or \<open>null\<close>.
\<close>

definition heart_rate_red :: "json \<Rightarrow> js_error + json option" where
  "heart_rate_red d =
     (if d = JNull then Inl TypeError
      else (case member_js d ''heart_rate'' of
              None \<Rightarrow> Inr None
            | Some h \<Rightarrow> if h = JNull then Inr None else Inr (member_js h ''red'')))"

text \<open>\<open>v || 0\<close>.\<close>

definition or_zero :: "json option \<Rightarrow> json" where
  "or_zero v = (case v of None \<Rightarrow> JNum 0 | Some x \<Rightarrow> if truthy x then x else JNum 0)"

text \<open>\<open>Array.prototype.shift\<close>: drops the first element; an empty array stays empty.\<close>

fun shift :: "'a list \<Rightarrow> 'a list" where
  "shift [] = []"
| "shift (x # xs) = xs"

subsection \<open>The handlers\<close>

text \<open>\<open>scanForDevices\<close> and the callback it hands to \<open>setTimeout(..., 2000)\<close>.\<close>

definition mockDevices :: "Device list" where
  "mockDevices =
     [ \<lparr> id' = ''001'', name = ''HydroGuard-Pool'', signalStrength = 90 \<rparr>,
       \<lparr> id' = ''002'', name = ''HydroGuard-Spa'', signalStrength = 75 \<rparr>,
       \<lparr> id' = ''003'', name = ''HydroGuard-Beach'', signalStrength = 60 \<rparr> ]"

definition scanForDevices :: "app_state \<Rightarrow> app_state" where
  "scanForDevices s = s\<lparr> isScanning := True \<rparr>"

definition scanForDevices_timeout :: "app_state \<Rightarrow> app_state" where
  "scanForDevices_timeout s = s\<lparr> availableDevices := mockDevices, isScanning := False \<rparr>"

text \<open>\<open>connectToDevice\<close> and the callback it hands to \<open>setTimeout(..., 1500)\<close>.\<close>

definition connectToDevice :: "Device \<Rightarrow> app_state \<Rightarrow> app_state" where
  "connectToDevice device s = s\<lparr> isScanning := False \<rparr>"

definition connectToDevice_timeout :: "Device \<Rightarrow> app_state \<Rightarrow> app_state" where
  "connectToDevice_timeout device s = s\<lparr> isConnected := True \<rparr>"

definition disconnectDevice :: "app_state \<Rightarrow> app_state" where
  "disconnectDevice s = s\<lparr> isMonitoring := False, isConnected := False, alertActive := False \<rparr>"

definition toggleMonitoring :: "app_state \<Rightarrow> app_state" where
  "toggleMonitoring s =
     (let s1 = s\<lparr> isMonitoring := \<not> isMonitoring s \<rparr>
      in if alertActive s then s1\<lparr> alertActive := False \<rparr> else s1)"

text \<open>The \<open>onPress\<close> of the alert dialog's OK button.\<close>

definition alert_ok :: "app_state \<Rightarrow> app_state" where
  "alert_ok s = s\<lparr> alertActive := False \<rparr>"

text \<open>
  \<open>Math.floor(Math.random() * 100)\<close>. \<open>rnd\<close> is the number \<open>Math.random()\<close>
  returned: a double with \<open>0 \<le> rnd < 1\<close>, so at most \<open>1 - unit_roundoff\<close>, the
  largest double below 1. The product of
  two doubles is the exact product rounded to the nearest double, that is the exact
  product times \<open>1 + delta\<close>, where the relative rounding error \<open>delta\<close> is at most
  \<open>unit_roundoff\<close> in absolute value. \<open>delta\<close> is \<open>0\<close> when the product is a double.
\<close>

definition unit_roundoff :: real where
  "unit_roundoff = 1 / 2 ^ 53"

definition newMovement :: "real \<Rightarrow> real \<Rightarrow> int" where
  "newMovement rnd delta = \<lfloor>rnd * 100 * (1 + delta)\<rfloor>"

text \<open>
  The callback of \<open>setInterval(..., 3000)\<close>. The dialog it opens and its call of
  \<open>fetchData\<close> are in \<open>fire\<close> below.
\<close>

definition monitoring_tick :: "real \<Rightarrow> real \<Rightarrow> app_state \<Rightarrow> app_state" where
  "monitoring_tick rnd delta s =
     (let s1 = s\<lparr> waterMovement := newMovement rnd delta \<rparr>
      in if newMovement rnd delta > 70 then s1\<lparr> alertActive := True \<rparr> else s1)"

text \<open>
  What \<open>await fetch(...)\<close> comes back with: the promise rejects, or there is a response
  with a status and a body; the body is \<open>None\<close> when \<open>response.json()\<close> rejects.
  \<open>response.ok\<close> is true for the statuses 200 to 299.
\<close>

datatype fetch_result = NetworkError | Response nat "json option"

definition response_ok :: "nat \<Rightarrow> bool" where
  "response_ok status = (200 \<le> status \<and> status \<le> 299)"

definition fetch_error_message :: string where
  "fetch_error_message = ''Failed to fetch sensor data. Please check your network connection.''"

text \<open>
  The function passed to \<open>setHeartRateData\<close>. \<open>now\<close> is
  \<open>new Date().toLocaleTimeString()\<close>. React calls the function when it renders, after
  \<open>fetchData\<close> has left its \<open>try\<close> block, so what it throws is not caught there.
\<close>

definition heartRateUpdater :: "json \<Rightarrow> string \<Rightarrow> ChartData \<Rightarrow> js_error + ChartData" where
  "heartRateUpdater d now prevState =
     (case datasets prevState of
        [] \<Rightarrow> Inl TypeError
      | ds0 # rest \<Rightarrow>
          (let full = (length (labels prevState) \<ge> 10);
               newLabels = (if full then shift (labels prevState) else labels prevState);
               newData = (if full then shift (data ds0) else data ds0)
           in case heart_rate_red d of
                Inl e \<Rightarrow> Inl e
              | Inr v \<Rightarrow>
                  Inr \<lparr> labels = newLabels @ [now],
                        datasets = [\<lparr> data = newData @ [or_zero v] \<rparr>] \<rparr>))"

text \<open>
  \<open>fetchData\<close> from the moment the request settles. Every failure ends in the
  \<open>catch\<close> branch, which calls \<open>setError\<close> and nothing else.
\<close>

definition fetchData :: "fetch_result \<Rightarrow> string \<Rightarrow> app_state \<Rightarrow> js_error + app_state" where
  "fetchData r now s =
     (case r of
        NetworkError \<Rightarrow> Inr (s\<lparr> error := Some fetch_error_message \<rparr>)
      | Response status body \<Rightarrow>
          if \<not> response_ok status then Inr (s\<lparr> error := Some fetch_error_message \<rparr>)
          else (case body of
                  None \<Rightarrow> Inr (s\<lparr> error := Some fetch_error_message \<rparr>)
                | Some d \<Rightarrow>
                    (case heartRateUpdater d now (heartRateData s) of
                       Inl e \<Rightarrow> Inl e
                     | Inr h \<Rightarrow> Inr (s\<lparr> sensorData := d, heartRateData := h \<rparr>))))"

subsection \<open>Rendering\<close>

text \<open>
  \<open>v?.k\<close> for a value \<open>v\<close> that may be \<open>undefined\<close>: \<open>undefined\<close> when \<open>v\<close> is
  \<open>undefined\<close> or \<open>null\<close>, the property otherwise.
\<close>

definition opt_member :: "json option \<Rightarrow> string \<Rightarrow> json option" where
  "opt_member v k =
     (case v of None \<Rightarrow> None | Some x \<Rightarrow> if x = JNull then None else member_js x k)"

text \<open>
  \<open>sensorData.mpu6050?.gyroscope.x\<close>, \<open>.y\<close> and \<open>.z\<close> (and the same for
  \<open>accelerometer\<close>). \<open>?.\<close> guards \<open>mpu6050\<close> only: when \<open>mpu6050\<close> is there and the
  sensor is \<open>undefined\<close> or \<open>null\<close>, reading \<open>.x\<close> throws.
\<close>

definition read_axes :: "json \<Rightarrow> string \<Rightarrow> js_error + json option list" where
  "read_axes sd sensor =
     (case member_js sd ''mpu6050'' of
        None \<Rightarrow> Inr [None, None, None]
      | Some m \<Rightarrow>
          if m = JNull then Inr [None, None, None]
          else (case member_js m sensor of
                  None \<Rightarrow> Inl TypeError
                | Some g \<Rightarrow>
                    if g = JNull then Inl TypeError
                    else Inr [member_js g ''x'', member_js g ''y'', member_js g ''z'']))"

text \<open>
  \<open>sensorData.mpu6050?.temperature?.toFixed(2)\<close>: the number that is printed with two
  decimals, \<open>undefined\<close> when \<open>mpu6050\<close> or \<open>temperature\<close> is \<open>undefined\<close> or
  \<open>null\<close>. Only a number has \<open>toFixed\<close>; calling it on any other value throws.
\<close>

definition read_temperature :: "json \<Rightarrow> js_error + real option" where
  "read_temperature sd =
     (case opt_member (member_js sd ''mpu6050'') ''temperature'' of
        None \<Rightarrow> Inr None
      | Some t \<Rightarrow>
          (case t of
             JNull \<Rightarrow> Inr None
           | JNum x \<Rightarrow> Inr (Some x)
           | JBool b \<Rightarrow> Inl TypeError
           | JStr str \<Rightarrow> Inl TypeError
           | JArr xs \<Rightarrow> Inl TypeError
           | JObj kvs \<Rightarrow> Inl TypeError))"

text \<open>
  What React accepts as a child of \<open>Text\<close>: strings and numbers are printed,
  booleans, \<open>null\<close> and \<open>undefined\<close> print nothing, an array is the list of its
  elements; a plain object is refused.
\<close>

fun valid_child :: "json \<Rightarrow> bool" where
  "valid_child JNull = True"
| "valid_child (JBool b) = True"
| "valid_child (JNum x) = True"
| "valid_child (JStr s) = True"
| "valid_child (JArr xs) = (\<forall>x \<in> set xs. valid_child x)"
| "valid_child (JObj kvs) = False"

definition child_ok :: "json option \<Rightarrow> bool" where
  "child_ok v = (case v of None \<Rightarrow> True | Some x \<Rightarrow> valid_child x)"

text \<open>
  \<open>renderSensorData\<close>. The error view when \<open>error\<close> is set, the loading view when
  \<open>sensorData\<close> is falsy; otherwise the \<open>ScrollView\<close>, for which the expressions in
  braces are evaluated first, in the order of the source, and React then checks the
  children. \<open>SensorView\<close> holds what is shown: \<open>heart_rate?.red\<close>, \<open>heart_rate?.ir\<close>,
  the chart data, the three gyroscope values, the three accelerometer values and the
  temperature. What \<open>LineChart\<close>, a library component, does with the chart data is not
  modelled.
\<close>

datatype view =
    ErrorView string
  | LoadingView
  | SensorView "json option" "json option" ChartData "json option list" "json option list"
      "real option"

definition renderSensorData :: "app_state \<Rightarrow> js_error + view" where
  "renderSensorData s =
     (let sd = sensorData s;
          red = opt_member (member_js sd ''heart_rate'') ''red'';
          ir = opt_member (member_js sd ''heart_rate'') ''ir'';
          rest =
            (if \<not> truthy sd then Inr LoadingView
             else (case read_axes sd ''gyroscope'' of
                     Inl e \<Rightarrow> Inl e
                   | Inr gyro \<Rightarrow>
                       (case read_axes sd ''accelerometer'' of
                          Inl e \<Rightarrow> Inl e
                        | Inr accel \<Rightarrow>
                            (case read_temperature sd of
                               Inl e \<Rightarrow> Inl e
                             | Inr temp \<Rightarrow>
                                 if list_all child_ok ([red, ir] @ gyro @ accel)
                                 then Inr (SensorView red ir (heartRateData s) gyro accel temp)
                                 else Inl InvalidReactChild))))
      in case error s of
           None \<Rightarrow> rest
         | Some m \<Rightarrow> if m \<noteq> [] then Inr (ErrorView m) else rest)"

text \<open>
  The part of \<open>App\<close>'s own \<open>return\<close> that can throw: the monitoring screen, and with it
  \<open>renderSensorData()\<close>, is built only when \<open>isConnected\<close> is true. \<open>None\<close> is the
  screen without it.
\<close>

definition render_App :: "app_state \<Rightarrow> js_error + view option" where
  "render_App s =
     (if isConnected s
      then (case renderSensorData s of Inl e \<Rightarrow> Inl e | Inr v \<Rightarrow> Inr (Some v))
      else Inr None)"

subsection \<open>Timers, dialogs and requests\<close>

text \<open>
  What the component holds outside its \<open>useState\<close> variables:
  \<^item> \<open>interval\<close>: the \<open>setInterval\<close> of the monitoring effect is registered (the
    effect's variable \<open>interval\<close> is defined);
  \<^item> \<open>timeouts\<close>: the \<open>setTimeout\<close> callbacks not yet run, with their delay in
    milliseconds; the source never clears one;
  \<^item> \<open>prompts\<close>: the DROWNING ALERT dialogs shown and not yet dismissed;
  \<^item> \<open>inflight\<close>: the calls of \<open>fetchData\<close> whose request has not settled;
  \<^item> \<open>crashed\<close>: an exception was thrown while rendering; the component is unmounted.
    \<open>ui\<close> is then the last state that was rendered.
\<close>

datatype callback = ScanDone | ConnectDone Device

record world =
  ui :: app_state
  interval :: bool
  timeouts :: "(nat \<times> callback) list"
  prompts :: nat
  inflight :: nat
  crashed :: "js_error option"

definition initial_world :: world where
  "initial_world =
     \<lparr> ui = initial_state, interval = False, timeouts = [], prompts = 0,
       inflight = 0, crashed = None \<rparr>"

text \<open>
  The state \<open>s'\<close> has been rendered; the two effects follow. An effect runs when one of
  its dependencies changed: the monitoring effect (dependencies \<open>isMonitoring\<close>,
  \<open>isConnected\<close>) first runs its cleanup, \<open>clearInterval\<close>, and then registers the
  interval when both are true; the second effect (dependency \<open>isConnected\<close>) calls
  \<open>fetchData\<close> when \<open>isConnected\<close> is true. The effects are taken to run with the
  render, before the next callback.
\<close>

definition effects :: "world \<Rightarrow> app_state \<Rightarrow> world" where
  "effects w s' =
     (let s = ui w;
          w1 = w\<lparr> ui := s' \<rparr>;
          w2 = (if isMonitoring s' \<noteq> isMonitoring s \<or> isConnected s' \<noteq> isConnected s
                then w1\<lparr> interval := (isMonitoring s' \<and> isConnected s') \<rparr> else w1)
      in if isConnected s' \<noteq> isConnected s \<and> isConnected s'
         then w2\<lparr> inflight := Suc (inflight w2) \<rparr> else w2)"

text \<open>
  An exception thrown while rendering, with no error boundary around \<open>App\<close>: React
  unmounts the component, which runs the cleanup of the monitoring effect. The state
  that failed to render is never held.
\<close>

definition unmount :: "js_error \<Rightarrow> world \<Rightarrow> world" where
  "unmount e w = w\<lparr> interval := False, crashed := Some e \<rparr>"

text \<open>
  The render that follows a state change: React calls \<open>App\<close> with the new state; when
  that throws the component is unmounted and the new state is dropped, otherwise the
  effects run. What can throw in the render reads \<open>isConnected\<close>, \<open>error\<close> and
  \<open>sensorData\<close> and nothing else, and a mounted component has rendered the state it
  holds; so the render is looked at only when one of the three changed. In every world a
  run reaches this is the same as looking at every render (\<open>commit_renders\<close> and
  \<open>mounted_renders\<close> below).
\<close>

definition render_inputs_changed :: "app_state \<Rightarrow> app_state \<Rightarrow> bool" where
  "render_inputs_changed s s' =
     (isConnected s' \<noteq> isConnected s \<or> error s' \<noteq> error s \<or> sensorData s' \<noteq> sensorData s)"

definition commit :: "world \<Rightarrow> app_state \<Rightarrow> world" where
  "commit w s' =
     (if render_inputs_changed (ui w) s'
      then (case render_App s' of Inl e \<Rightarrow> unmount e w | Inr v \<Rightarrow> effects w s')
      else effects w s')"

text \<open>
  The things that can happen to the component. The buttons are not guarded by the
  screen they are on; a timeout, the interval, a settling request and the OK button of
  a dialog need the timer, request or dialog to exist, otherwise nothing happens.
  \<open>IntervalFires rnd delta\<close> is one run of the interval callback, with the number drawn
  and the rounding error of the product; \<open>FetchSettles r now\<close> is the end of one
  request, with its outcome and the time of day as \<open>toLocaleTimeString\<close> prints it.
  The Connecting and Connected dialogs have no handler and are left out.
\<close>

datatype event =
    PressScan
  | PressDevice Device
  | TimeoutFires nat
  | PressToggle
  | PressDisconnect
  | IntervalFires real real
  | FetchSettles fetch_result string
  | PressAlertOK

fun remove_nth :: "nat \<Rightarrow> 'a list \<Rightarrow> 'a list" where
  "remove_nth k xs = take k xs @ drop (Suc k) xs"

fun fire :: "event \<Rightarrow> world \<Rightarrow> world" where
  "fire PressScan w =
     (commit w (scanForDevices (ui w)))\<lparr> timeouts := timeouts w @ [(2000, ScanDone)] \<rparr>"
| "fire (PressDevice device) w =
     (commit w (connectToDevice device (ui w)))
       \<lparr> timeouts := timeouts w @ [(1500, ConnectDone device)] \<rparr>"
| "fire (TimeoutFires k) w =
     (if k < length (timeouts w)
      then (let w' = w\<lparr> timeouts := remove_nth k (timeouts w) \<rparr>
            in case snd (timeouts w ! k) of
                 ScanDone \<Rightarrow> commit w' (scanForDevices_timeout (ui w))
               | ConnectDone device \<Rightarrow> commit w' (connectToDevice_timeout device (ui w)))
      else w)"
| "fire PressToggle w = commit w (toggleMonitoring (ui w))"
| "fire PressDisconnect w = commit w (disconnectDevice (ui w))"
| "fire (IntervalFires rnd delta) w =
     (if interval w
      then (let w' = commit w (monitoring_tick rnd delta (ui w))
            in w'\<lparr> prompts := (if newMovement rnd delta > 70 then Suc (prompts w)
                               else prompts w),
                   inflight := Suc (inflight w') \<rparr>)
      else w)"
| "fire (FetchSettles r now) w =
     (if 0 < inflight w
      then (case fetchData r now (ui w) of
              Inr s' \<Rightarrow> commit (w\<lparr> inflight := inflight w - 1 \<rparr>) s'
            | Inl e \<Rightarrow> unmount e (w\<lparr> inflight := inflight w - 1 \<rparr>))
      else w)"
| "fire PressAlertOK w =
     (if 0 < prompts w then commit (w\<lparr> prompts := prompts w - 1 \<rparr>) (alert_ok (ui w)) else w)"

text \<open>Once the component is unmounted nothing changes its state any more.\<close>

definition step :: "event \<Rightarrow> world \<Rightarrow> world" where
  "step e w = (if crashed w = None then fire e w else w)"

fun run :: "event list \<Rightarrow> world \<Rightarrow> world" where
  "run [] w = w"
| "run (e # es) w = run es (step e w)"

subsection \<open>Notions used to state the properties\<close>

text \<open>\<open>heartRateData.datasets[0].data\<close>, the series the chart draws.\<close>

definition points :: "ChartData \<Rightarrow> json list" where
  "points c = (case datasets c of [] \<Rightarrow> [] | ds0 # rest \<Rightarrow> data ds0)"

text \<open>
  The shape every reachable chart has: one dataset, as many values as labels, at most
  ten of each.
\<close>

definition chart_ok :: "ChartData \<Rightarrow> bool" where
  "chart_ok c =
     (length (datasets c) = 1 \<and> length (points c) = length (labels c)
      \<and> length (labels c) \<le> 10)"

text \<open>A component that is mounted has rendered the state it holds.\<close>

definition mounted_ok :: "world \<Rightarrow> bool" where
  "mounted_ok w = (case render_App (ui w) of Inl e \<Rightarrow> crashed w \<noteq> None | Inr v \<Rightarrow> True)"

text \<open>Monitoring is off: no interval registered, no alert.\<close>

definition stopped :: "world \<Rightarrow> bool" where
  "stopped w = (\<not> isMonitoring (ui w) \<and> \<not> interval w \<and> \<not> alertActive (ui w))"

text \<open>
  The fetches that end in the \<open>catch\<close> branch: the request is rejected, the status is
  not 2xx, or the body does not parse.
\<close>

definition fetch_fails :: "fetch_result \<Rightarrow> bool" where
  "fetch_fails r =
     (case r of NetworkError \<Rightarrow> True
      | Response status body \<Rightarrow> \<not> response_ok status \<or> body = None)"

text \<open>
  A body without a usable \<open>heart_rate.red\<close>: \<open>heart_rate\<close> is absent, \<open>red\<close> is
  absent, or \<open>red\<close> is falsy. A body that is no object has no \<open>heart_rate\<close>.
\<close>

definition lacks_red :: "json \<Rightarrow> bool" where
  "lacks_red d =
     (case member_js d ''heart_rate'' of
        None \<Rightarrow> True
      | Some h \<Rightarrow> (case member_js h ''red'' of None \<Rightarrow> True | Some x \<Rightarrow> \<not> truthy x))"

subsection \<open>Sample runs\<close>

definition spa :: Device where
  "spa = \<lparr> id' = ''002'', name = ''HydroGuard-Spa'', signalStrength = 75 \<rparr>"

definition body88 :: json where
  "body88 = JObj [(''heart_rate'', JObj [(''red'', JNum 88)])]"

text \<open>\<open>{mpu6050:{}}\<close>: no \<open>heart_rate\<close>, and an \<open>mpu6050\<close> without its sensors.\<close>

definition body_empty_mpu6050 :: json where
  "body_empty_mpu6050 = JObj [(''mpu6050'', JObj [])]"

text \<open>\<open>{heart_rate:{red:{}}}\<close>: a reading that is an object, which no \<open>Text\<close> can show.\<close>

definition body_red_object :: json where
  "body_red_object = JObj [(''heart_rate'', JObj [(''red'', JObj [])])]"

text \<open>\<open>{heart_rate:{red:0}}\<close>: a reading that is there and falsy.\<close>

definition body_red_zero :: json where
  "body_red_zero = JObj [(''heart_rate'', JObj [(''red'', JNum 0)])]"

text \<open>Scan, pick the second device, wait for the connection.\<close>

definition connected_trace :: "event list" where
  "connected_trace = [PressScan, TimeoutFires 0, PressDevice spa, TimeoutFires 0]"

text \<open>Then start monitoring; the first tick draws 0.75.\<close>

definition connect_trace :: "event list" where
  "connect_trace = connected_trace @ [PressToggle]"

definition alert_trace :: "event list" where
  "alert_trace = connect_trace @ [IntervalFires (3/4) 0]"

text \<open>A tick that draws 0.125, and its request answered with \<open>{heart_rate:{red:88}}\<close>.\<close>

definition beat :: "string \<Rightarrow> event list" where
  "beat now = [IntervalFires (1/8) 0, FetchSettles (Response 200 (Some body88)) now]"

definition full_trace :: "event list" where
  "full_trace =
     connect_trace @ beat ''t01'' @ beat ''t02'' @ beat ''t03'' @ beat ''t04'' @ beat ''t05''
       @ beat ''t06'' @ beat ''t07'' @ beat ''t08'' @ beat ''t09'' @ beat ''t10''"

definition after_stop :: "event list" where
  "after_stop =
     [IntervalFires (7/8) 0, PressAlertOK, FetchSettles NetworkError ''t01'',
      TimeoutFires 0, PressScan, IntervalFires (7/8) 0]"

definition after_failure :: "event list" where
  "after_failure =
     [PressToggle, IntervalFires (1/8) 0, FetchSettles (Response 200 (Some body88)) ''t02'',
      PressToggle, PressToggle, PressDisconnect]"

section \<open>Properties\<close>

subsection \<open>Rendering and effects\<close>

lemmas model_defs =
  step_def commit_def effects_def unmount_def render_inputs_changed_def render_App_def
  renderSensorData_def read_axes_def read_temperature_def opt_member_def child_ok_def
  Let_def initial_world_def initial_state_def
  scanForDevices_def scanForDevices_timeout_def connectToDevice_def connectToDevice_timeout_def
  disconnectDevice_def toggleMonitoring_def alert_ok_def monitoring_tick_def newMovement_def
  fetchData_def heartRateUpdater_def heart_rate_red_def or_zero_def response_ok_def

lemma ui_effects: "ui (effects w s') = s'"
  by (simp add: effects_def Let_def)

lemma crashed_effects: "crashed (effects w s') = crashed w"
  by (simp add: effects_def Let_def)

lemma timeouts_effects: "timeouts (effects w s') = timeouts w"
  by (simp add: effects_def Let_def)

lemma interval_effects:
  "interval (effects w s') =
     (if isMonitoring s' \<noteq> isMonitoring (ui w) \<or> isConnected s' \<noteq> isConnected (ui w)
      then isMonitoring s' \<and> isConnected s' else interval w)"
  by (simp add: effects_def Let_def)

lemma commit_cases:
  assumes "P (effects w s')" and "\<And>e. render_App s' = Inl e \<Longrightarrow> P (unmount e w)"
  shows "P (commit w s')"
  using assms by (auto simp: commit_def split: sum.splits)

lemma commit_unchanged:
  "\<not> render_inputs_changed (ui w) s' \<Longrightarrow> commit w s' = effects w s'"
  by (simp add: commit_def)

lemma commit_rendered:
  "render_App s' = Inr v \<Longrightarrow> commit w s' = effects w s'"
  by (simp add: commit_def)

lemma timeouts_commit: "timeouts (commit w s') = timeouts w"
  by (rule commit_cases) (simp_all add: timeouts_effects unmount_def)

text \<open>Whether the render throws is decided by \<open>isConnected\<close>, \<open>error\<close> and \<open>sensorData\<close>.\<close>

lemma render_App_inputs:
  assumes "\<not> render_inputs_changed s s'"
  shows "isl (render_App s') = isl (render_App s)"
  using assms
  by (auto simp: render_inputs_changed_def render_App_def renderSensorData_def Let_def
           split: sum.splits option.splits)

lemma commit_renders:
  assumes "render_App (ui w) = Inr v"
  shows "commit w s' = (case render_App s' of Inl e \<Rightarrow> unmount e w | Inr v' \<Rightarrow> effects w s')"
proof (cases "render_inputs_changed (ui w) s'")
  case True
  then show ?thesis by (simp add: commit_def)
next
  case False
  from render_App_inputs [OF False] assms have "\<not> isl (render_App s')" by simp
  then obtain v' where "render_App s' = Inr v'" by (cases "render_App s'") auto
  with False show ?thesis by (simp add: commit_def)
qed

lemma renderSensorData_error:
  "error s = Some fetch_error_message \<Longrightarrow>
   renderSensorData s = Inr (ErrorView fetch_error_message)"
  by (simp add: renderSensorData_def Let_def fetch_error_message_def)

lemma render_App_error:
  "error s = Some fetch_error_message \<Longrightarrow> \<exists>v. render_App s = Inr v"
  by (simp add: render_App_def renderSensorData_error)

lemma render_App_disconnected: "\<not> isConnected s \<Longrightarrow> render_App s = Inr None"
  by (simp add: render_App_def)

lemma handlers_keep_render_inputs:
  "\<not> render_inputs_changed s (scanForDevices s)"
  "\<not> render_inputs_changed s (scanForDevices_timeout s)"
  "\<not> render_inputs_changed s (connectToDevice device s)"
  "\<not> render_inputs_changed s (toggleMonitoring s)"
  "\<not> render_inputs_changed s (alert_ok s)"
  "\<not> render_inputs_changed s (monitoring_tick rnd delta s)"
  by (simp_all add: render_inputs_changed_def scanForDevices_def scanForDevices_timeout_def
      connectToDevice_def toggleMonitoring_def alert_ok_def monitoring_tick_def Let_def)

lemma commit_handlers:
  "commit w (scanForDevices (ui w)) = effects w (scanForDevices (ui w))"
  "ui w' = ui w \<Longrightarrow> commit w' (scanForDevices_timeout (ui w)) = effects w' (scanForDevices_timeout (ui w))"
  "commit w (connectToDevice device (ui w)) = effects w (connectToDevice device (ui w))"
  "commit w (toggleMonitoring (ui w)) = effects w (toggleMonitoring (ui w))"
  "ui w' = ui w \<Longrightarrow> commit w' (alert_ok (ui w)) = effects w' (alert_ok (ui w))"
  "commit w (monitoring_tick rnd delta (ui w)) = effects w (monitoring_tick rnd delta (ui w))"
  "commit w (disconnectDevice (ui w)) = effects w (disconnectDevice (ui w))"
  by (simp_all add: commit_unchanged handlers_keep_render_inputs
      commit_rendered [OF render_App_disconnected] disconnectDevice_def)

lemma commit_failure:
  "commit w (s\<lparr> error := Some fetch_error_message \<rparr>)
     = effects w (s\<lparr> error := Some fetch_error_message \<rparr>)"
proof -
  obtain v where "render_App (s\<lparr> error := Some fetch_error_message \<rparr>) = Inr v"
    using render_App_error [of "s\<lparr> error := Some fetch_error_message \<rparr>"] by auto
  then show ?thesis by (rule commit_rendered)
qed

lemma step_tick:
  "interval w \<Longrightarrow> crashed w = None \<Longrightarrow>
   ui (step (IntervalFires rnd delta) w) = monitoring_tick rnd delta (ui w)"
  by (simp add: step_def Let_def commit_handlers ui_effects)

lemma step_keeps_timeouts:
  assumes "\<And>j. e \<noteq> TimeoutFires j"
  shows "take (length (timeouts w)) (timeouts (step e w)) = timeouts w"
proof (cases e)
  case (TimeoutFires k)
  with assms [of k] show ?thesis by simp
next
  case (FetchSettles r now)
  then show ?thesis
    by (auto simp: step_def timeouts_commit unmount_def split: sum.splits)
qed (auto simp: step_def timeouts_commit Let_def)

subsection \<open>What a settled request changes\<close>

lemma shift_tl: "shift xs = tl xs"
  by (cases xs) simp_all

lemma fetchData_frame:
  assumes "fetchData r now s = Inr s'"
  shows "isConnected s' = isConnected s" and "isMonitoring s' = isMonitoring s"
    and "alertActive s' = alertActive s" and "waterMovement s' = waterMovement s"
    and "isScanning s' = isScanning s" and "availableDevices s' = availableDevices s"
  using assms
  by (auto simp: fetchData_def split: fetch_result.splits option.splits if_splits sum.splits)

lemma fetchData_error_cases:
  assumes "fetchData r now s = Inr s'"
  shows "error s' = error s \<or> error s' = Some fetch_error_message"
  using assms
  by (auto simp: fetchData_def split: fetch_result.splits option.splits if_splits sum.splits)

lemma fetchData_error:
  "error s = Some fetch_error_message \<Longrightarrow> fetchData r now s = Inr s' \<Longrightarrow>
   error s' = Some fetch_error_message"
  using fetchData_error_cases [of r now s s'] by auto

lemma fetchData_failure:
  "fetch_fails r \<Longrightarrow> fetchData r now s = Inr (s\<lparr> error := Some fetch_error_message \<rparr>)"
  by (auto simp: fetch_fails_def fetchData_def split: fetch_result.splits)

lemma heartRateUpdater_chart_ok:
  "chart_ok c \<Longrightarrow> heartRateUpdater d now c = Inr c' \<Longrightarrow> chart_ok c'"
  by (cases "datasets c")
     (auto simp: heartRateUpdater_def chart_ok_def points_def Let_def shift_tl
           split: sum.splits if_splits)

lemma fetchData_chart_ok:
  "chart_ok (heartRateData s) \<Longrightarrow> fetchData r now s = Inr s' \<Longrightarrow> chart_ok (heartRateData s')"
  by (auto simp: fetchData_def split: fetch_result.splits option.splits if_splits sum.splits
           dest: heartRateUpdater_chart_ok)

lemma fetchData_success:
  assumes "chart_ok (heartRateData s)" and "response_ok status" and "heart_rate_red d = Inr v"
  shows "fetchData (Response status (Some d)) now s =
     Inr (s\<lparr> sensorData := d,
             heartRateData :=
               \<lparr> labels = (if length (labels (heartRateData s)) = 10
                            then tl (labels (heartRateData s)) else labels (heartRateData s)) @ [now],
                 datasets = [\<lparr> data = (if length (points (heartRateData s)) = 10
                                         then tl (points (heartRateData s))
                                         else points (heartRateData s)) @ [or_zero v] \<rparr>] \<rparr> \<rparr>)"
  using assms
  by (cases "datasets (heartRateData s)")
     (auto simp: fetchData_def heartRateUpdater_def chart_ok_def points_def Let_def shift_tl)

lemma fetchData_throws:
  assumes "response_ok status" and "heart_rate_red d = Inl e"
  shows "fetchData (Response status (Some d)) now s = Inl TypeError"
  using assms
  by (cases "datasets (heartRateData s)")
     (auto simp: fetchData_def heartRateUpdater_def heart_rate_red_def Let_def
           split: option.splits if_splits)

lemma lacks_red_zero:
  "d \<noteq> JNull \<Longrightarrow> lacks_red d \<Longrightarrow> \<exists>v. heart_rate_red d = Inr v \<and> or_zero v = JNum 0"
  by (auto simp: lacks_red_def heart_rate_red_def or_zero_def split: option.splits)

subsection \<open>Invariants of a run\<close>

lemma ui_commit_cases: "ui (commit w s') = s' \<or> ui (commit w s') = ui w"
  by (rule commit_cases) (simp_all add: ui_effects unmount_def)

text \<open>A property of the state that every handler keeps holds along every run.\<close>

lemma step_ui_invariant:
  assumes "P (ui w)"
    and "\<And>s. P s \<Longrightarrow> P (scanForDevices s)"
    and "\<And>s. P s \<Longrightarrow> P (scanForDevices_timeout s)"
    and "\<And>s device. P s \<Longrightarrow> P (connectToDevice device s)"
    and "\<And>s device. P s \<Longrightarrow> P (connectToDevice_timeout device s)"
    and "\<And>s. P s \<Longrightarrow> P (toggleMonitoring s)"
    and "\<And>s. P s \<Longrightarrow> P (disconnectDevice s)"
    and "\<And>s rnd delta. P s \<Longrightarrow> P (monitoring_tick rnd delta s)"
    and "\<And>s. P s \<Longrightarrow> P (alert_ok s)"
    and "\<And>s r now s'. P s \<Longrightarrow> fetchData r now s = Inr s' \<Longrightarrow> P s'"
  shows "P (ui (step e w))"
proof (cases e)
  case PressScan
  then show ?thesis
    using assms(1,2) ui_commit_cases [of w "scanForDevices (ui w)"]
    by (auto simp: step_def)
next
  case (PressDevice device)
  then show ?thesis
    using assms(1,4) ui_commit_cases [of w "connectToDevice device (ui w)"]
    by (auto simp: step_def)
next
  case (TimeoutFires k)
  show ?thesis
  proof (cases "snd (timeouts w ! k)")
    case ScanDone
    then show ?thesis
      using TimeoutFires assms(1,3)
        ui_commit_cases [of "w\<lparr> timeouts := remove_nth k (timeouts w) \<rparr>"
          "scanForDevices_timeout (ui w)"]
      by (auto simp: step_def Let_def)
  next
    case (ConnectDone device)
    then show ?thesis
      using TimeoutFires assms(1,5)
        ui_commit_cases [of "w\<lparr> timeouts := remove_nth k (timeouts w) \<rparr>"
          "connectToDevice_timeout device (ui w)"]
      by (auto simp: step_def Let_def)
  qed
next
  case PressToggle
  then show ?thesis
    using assms(1,6) ui_commit_cases [of w "toggleMonitoring (ui w)"]
    by (auto simp: step_def)
next
  case PressDisconnect
  then show ?thesis
    using assms(1,7) ui_commit_cases [of w "disconnectDevice (ui w)"]
    by (auto simp: step_def)
next
  case (IntervalFires rnd delta)
  then show ?thesis
    using assms(1,8) ui_commit_cases [of w "monitoring_tick rnd delta (ui w)"]
    by (auto simp: step_def Let_def)
next
  case (FetchSettles r now)
  show ?thesis
  proof (cases "fetchData r now (ui w)")
    case (Inl err)
    then show ?thesis
      using FetchSettles assms(1) by (auto simp: step_def unmount_def)
  next
    case (Inr s')
    then show ?thesis
      using FetchSettles assms(1) assms(10) [OF assms(1) Inr]
        ui_commit_cases [of "w\<lparr> inflight := inflight w - 1 \<rparr>" s']
      by (auto simp: step_def)
  qed
next
  case PressAlertOK
  then show ?thesis
    using assms(1,9) ui_commit_cases [of "w\<lparr> prompts := prompts w - 1 \<rparr>" "alert_ok (ui w)"]
    by (auto simp: step_def)
qed

lemma initial_chart_ok: "chart_ok (heartRateData (ui initial_world))"
  by (simp add: initial_world_def initial_state_def chart_ok_def points_def)

lemma step_chart_ok:
  "chart_ok (heartRateData (ui w)) \<Longrightarrow> chart_ok (heartRateData (ui (step e w)))"
  by (rule step_ui_invariant [where P = "\<lambda>s. chart_ok (heartRateData s)"])
     (auto simp: scanForDevices_def scanForDevices_timeout_def connectToDevice_def
        connectToDevice_timeout_def toggleMonitoring_def disconnectDevice_def
        monitoring_tick_def alert_ok_def Let_def dest: fetchData_chart_ok)

lemma run_chart_ok:
  "chart_ok (heartRateData (ui w)) \<Longrightarrow> chart_ok (heartRateData (ui (run evs w)))"
  by (induction evs arbitrary: w) (simp_all add: step_chart_ok)

lemma step_error:
  "error (ui w) = Some fetch_error_message \<Longrightarrow> error (ui (step e w)) = Some fetch_error_message"
  by (rule step_ui_invariant [where P = "\<lambda>s. error s = Some fetch_error_message"])
     (auto simp: scanForDevices_def scanForDevices_timeout_def connectToDevice_def
        connectToDevice_timeout_def toggleMonitoring_def disconnectDevice_def
        monitoring_tick_def alert_ok_def Let_def dest: fetchData_error)

lemma run_error:
  "error (ui w) = Some fetch_error_message \<Longrightarrow> error (ui (run evs w)) = Some fetch_error_message"
  by (induction evs arbitrary: w) (simp_all add: step_error)

lemma stopped_commit:
  assumes "stopped w" and "\<not> isMonitoring s'" and "\<not> alertActive s'"
    and "interval w' = interval w" and "ui w' = ui w"
  shows "stopped (commit w' s')"
  by (rule commit_cases)
     (use assms in \<open>auto simp: stopped_def ui_effects interval_effects unmount_def\<close>)

lemma step_stopped:
  "stopped w \<Longrightarrow> e \<noteq> PressToggle \<Longrightarrow> stopped (step e w)"
proof (cases e)
  case (FetchSettles r now)
  assume st: "stopped w"
  show ?thesis
  proof (cases "fetchData r now (ui w)")
    case (Inl err)
    with st FetchSettles show ?thesis
      by (auto simp: step_def stopped_def unmount_def)
  next
    case (Inr s')
    have "stopped (commit (w\<lparr> inflight := inflight w - 1 \<rparr>) s')"
      using st fetchData_frame(2,3) [OF Inr]
      by (intro stopped_commit [of w]) (auto simp: stopped_def)
    with st FetchSettles Inr show ?thesis
      by (auto simp: step_def)
  qed
next
  case (TimeoutFires k)
  assume st: "stopped w"
  show ?thesis
  proof (cases "snd (timeouts w ! k)")
    case ScanDone
    have "stopped (commit (w\<lparr> timeouts := remove_nth k (timeouts w) \<rparr>)
            (scanForDevices_timeout (ui w)))"
      using st by (intro stopped_commit [of w]) (auto simp: stopped_def scanForDevices_timeout_def)
    with st TimeoutFires ScanDone show ?thesis
      by (auto simp: step_def Let_def)
  next
    case (ConnectDone device)
    have "stopped (commit (w\<lparr> timeouts := remove_nth k (timeouts w) \<rparr>)
            (connectToDevice_timeout device (ui w)))"
      using st
      by (intro stopped_commit [of w]) (auto simp: stopped_def connectToDevice_timeout_def)
    with st TimeoutFires ConnectDone show ?thesis
      by (auto simp: step_def Let_def)
  qed
next
  case PressScan
  assume st: "stopped w"
  have "stopped (commit w (scanForDevices (ui w)))"
    using st by (intro stopped_commit [of w]) (auto simp: stopped_def scanForDevices_def)
  with st PressScan show ?thesis by (auto simp: step_def stopped_def)
next
  case (PressDevice device)
  assume st: "stopped w"
  have "stopped (commit w (connectToDevice device (ui w)))"
    using st by (intro stopped_commit [of w]) (auto simp: stopped_def connectToDevice_def)
  with st PressDevice show ?thesis by (auto simp: step_def stopped_def)
next
  case PressDisconnect
  assume st: "stopped w"
  have "stopped (commit w (disconnectDevice (ui w)))"
    using st by (intro stopped_commit [of w]) (auto simp: stopped_def disconnectDevice_def)
  with st PressDisconnect show ?thesis by (auto simp: step_def)
next
  case (IntervalFires rnd delta)
  assume "stopped w"
  with IntervalFires show ?thesis by (auto simp: step_def stopped_def)
next
  case PressAlertOK
  assume st: "stopped w"
  have "stopped (commit (w\<lparr> prompts := prompts w - 1 \<rparr>) (alert_ok (ui w)))"
    using st by (intro stopped_commit [of w]) (auto simp: stopped_def alert_ok_def)
  with st PressAlertOK show ?thesis by (auto simp: step_def)
qed simp

lemma run_stopped:
  "stopped w \<Longrightarrow> PressToggle \<notin> set evs \<Longrightarrow> stopped (run evs w)"
  by (induction evs arbitrary: w) (auto simp: step_stopped)

text \<open>A mounted component has rendered the state it holds.\<close>

lemma mounted_commit:
  assumes "mounted_ok w" and "ui w' = ui w" and "crashed w' = crashed w"
  shows "mounted_ok (commit w' s')"
proof (cases "render_inputs_changed (ui w') s'")
  case True
  then show ?thesis
    by (auto simp: commit_def mounted_ok_def ui_effects crashed_effects unmount_def
        split: sum.splits)
next
  case False
  from render_App_inputs [OF False] assms show ?thesis
    by (auto simp: commit_unchanged [OF False] mounted_ok_def ui_effects crashed_effects
        split: sum.splits)
qed

lemma initial_mounted_ok: "mounted_ok initial_world"
  by (simp add: mounted_ok_def initial_world_def initial_state_def render_App_def)

lemma mounted_ok_updates:
  "mounted_ok (w\<lparr> timeouts := ts \<rparr>) = mounted_ok w"
  "mounted_ok (w\<lparr> prompts := p \<rparr>) = mounted_ok w"
  "mounted_ok (w\<lparr> inflight := n \<rparr>) = mounted_ok w"
  by (simp_all add: mounted_ok_def split: sum.splits)

lemma step_mounted_ok: "mounted_ok w \<Longrightarrow> mounted_ok (step e w)"
proof (cases e)
  case (FetchSettles r now)
  assume m: "mounted_ok w"
  show ?thesis
  proof (cases "fetchData r now (ui w)")
    case (Inl err)
    with m FetchSettles show ?thesis
      by (auto simp: step_def mounted_ok_def unmount_def split: sum.splits)
  next
    case (Inr s')
    have "mounted_ok (commit (w\<lparr> inflight := inflight w - 1 \<rparr>) s')"
      using m by (intro mounted_commit [of w]) simp_all
    with m FetchSettles Inr show ?thesis by (auto simp: step_def)
  qed
next
  case (TimeoutFires k)
  assume m: "mounted_ok w"
  have "mounted_ok (commit (w\<lparr> timeouts := remove_nth k (timeouts w) \<rparr>) s')" for s'
    using m by (intro mounted_commit [of w]) simp_all
  with m TimeoutFires show ?thesis
    by (auto simp: step_def Let_def split: callback.splits)
next
  case PressScan
  assume m: "mounted_ok w"
  have "mounted_ok (commit w (scanForDevices (ui w)))"
    using m by (intro mounted_commit [of w]) simp_all
  with m PressScan show ?thesis by (auto simp: step_def mounted_ok_updates)
next
  case (PressDevice device)
  assume m: "mounted_ok w"
  have "mounted_ok (commit w (connectToDevice device (ui w)))"
    using m by (intro mounted_commit [of w]) simp_all
  with m PressDevice show ?thesis by (auto simp: step_def mounted_ok_updates)
next
  case PressToggle
  assume m: "mounted_ok w"
  have "mounted_ok (commit w (toggleMonitoring (ui w)))"
    using m by (intro mounted_commit [of w]) simp_all
  with m PressToggle show ?thesis by (auto simp: step_def)
next
  case PressDisconnect
  assume m: "mounted_ok w"
  have "mounted_ok (commit w (disconnectDevice (ui w)))"
    using m by (intro mounted_commit [of w]) simp_all
  with m PressDisconnect show ?thesis by (auto simp: step_def)
next
  case (IntervalFires rnd delta)
  assume m: "mounted_ok w"
  have "mounted_ok (commit w (monitoring_tick rnd delta (ui w)))"
    using m by (intro mounted_commit [of w]) simp_all
  with m IntervalFires show ?thesis by (auto simp: step_def Let_def mounted_ok_updates)
next
  case PressAlertOK
  assume m: "mounted_ok w"
  have "mounted_ok (commit (w\<lparr> prompts := prompts w - 1 \<rparr>) (alert_ok (ui w)))"
    using m by (intro mounted_commit [of w]) simp_all
  with m PressAlertOK show ?thesis by (auto simp: step_def)
qed

lemma run_mounted_ok: "mounted_ok w \<Longrightarrow> mounted_ok (run evs w)"
  by (induction evs arbitrary: w) (simp_all add: step_mounted_ok)

text \<open>
  So in every world a run reaches, \<open>commit\<close> is: render the new state; unmount when that
  throws, run the effects otherwise.
\<close>

lemma mounted_renders:
  assumes "w = run evs initial_world" and "crashed w = None"
  shows "commit w s' = (case render_App s' of Inl e \<Rightarrow> unmount e w | Inr v \<Rightarrow> effects w s')"
proof -
  have "mounted_ok w"
    unfolding assms(1) by (rule run_mounted_ok [OF initial_mounted_ok])
  with assms(2) obtain v where "render_App (ui w) = Inr v"
    by (auto simp: mounted_ok_def split: sum.splits)
  then show ?thesis by (rule commit_renders)
qed

lemma newMovement_range:
  assumes "0 \<le> rnd" and "rnd \<le> 1 - unit_roundoff" and "\<bar>delta\<bar> \<le> unit_roundoff"
  shows "0 \<le> newMovement rnd delta \<and> newMovement rnd delta \<le> 99"
proof -
  have u: "0 < unit_roundoff" "unit_roundoff < 1"
    by (simp_all add: unit_roundoff_def)
  have d: "0 \<le> 1 + delta" "1 + delta \<le> 1 + unit_roundoff"
    using assms(3) u by linarith+
  have "rnd * (1 + delta) \<le> (1 - unit_roundoff) * (1 + unit_roundoff)"
    using assms(1,2) d u by (intro mult_mono) simp_all
  also have "\<dots> = 1 - unit_roundoff * unit_roundoff"
    by (simp add: algebra_simps)
  also have "\<dots> < 1"
    using u by simp
  finally have lt: "rnd * 100 * (1 + delta) < 100"
    by simp
  have ge: "0 \<le> rnd * 100 * (1 + delta)"
    using assms(1) d(1) by simp
  from lt have "\<lfloor>rnd * 100 * (1 + delta)\<rfloor> < 100"
    by (simp add: floor_less_iff)
  moreover from ge have "0 \<le> \<lfloor>rnd * 100 * (1 + delta)\<rfloor>"
    by simp
  ultimately show ?thesis
    by (simp add: newMovement_def)
qed

subsection \<open>The sample runs, evaluated\<close>

lemma connected_world:
  "run connected_trace initial_world =
     \<lparr> ui = \<lparr> isConnected = True, waterMovement = 0, isMonitoring = False,
              alertActive = False, isScanning = False, availableDevices = mockDevices,
              sensorData = JNull, error = None,
              heartRateData = \<lparr> labels = [], datasets = [\<lparr> data = [] \<rparr>] \<rparr> \<rparr>,
       interval = False, timeouts = [], prompts = 0, inflight = 1, crashed = None \<rparr>"
  by (simp add: connected_trace_def spa_def model_defs)

lemma alert_world:
  "run alert_trace initial_world =
     \<lparr> ui = \<lparr> isConnected = True, waterMovement = 75, isMonitoring = True,
              alertActive = True, isScanning = False, availableDevices = mockDevices,
              sensorData = JNull, error = None,
              heartRateData = \<lparr> labels = [], datasets = [\<lparr> data = [] \<rparr>] \<rparr> \<rparr>,
       interval = True, timeouts = [], prompts = 1, inflight = 2, crashed = None \<rparr>"
  by (simp add: alert_trace_def connect_trace_def connected_trace_def spa_def model_defs)

lemma full_world:
  "run full_trace initial_world =
     \<lparr> ui = \<lparr> isConnected = True, waterMovement = 12, isMonitoring = True,
              alertActive = False, isScanning = False, availableDevices = mockDevices,
              sensorData = body88, error = None,
              heartRateData =
                \<lparr> labels = [''t01'', ''t02'', ''t03'', ''t04'', ''t05'', ''t06'', ''t07'',
                            ''t08'', ''t09'', ''t10''],
                  datasets = [\<lparr> data = [JNum 88, JNum 88, JNum 88, JNum 88, JNum 88, JNum 88,
                                          JNum 88, JNum 88, JNum 88, JNum 88] \<rparr>] \<rparr> \<rparr>,
       interval = True, timeouts = [], prompts = 0, inflight = 1, crashed = None \<rparr>"
  by (simp add: full_trace_def beat_def connect_trace_def connected_trace_def spa_def
      body88_def model_defs)

lemma stopped_world:
  "step PressToggle (run alert_trace initial_world) =
     \<lparr> ui = \<lparr> isConnected = True, waterMovement = 75, isMonitoring = False,
              alertActive = False, isScanning = False, availableDevices = mockDevices,
              sensorData = JNull, error = None,
              heartRateData = \<lparr> labels = [], datasets = [\<lparr> data = [] \<rparr>] \<rparr> \<rparr>,
       interval = False, timeouts = [], prompts = 1, inflight = 2, crashed = None \<rparr>"
  unfolding alert_world by (simp add: model_defs)

lemma after_stop_world:
  "run after_stop (step PressToggle (run alert_trace initial_world)) =
     \<lparr> ui = \<lparr> isConnected = True, waterMovement = 75, isMonitoring = False,
              alertActive = False, isScanning = True, availableDevices = mockDevices,
              sensorData = JNull, error = Some fetch_error_message,
              heartRateData = \<lparr> labels = [], datasets = [\<lparr> data = [] \<rparr>] \<rparr> \<rparr>,
       interval = False, timeouts = [(2000, ScanDone)], prompts = 0, inflight = 1,
       crashed = None \<rparr>"
  unfolding stopped_world
  by (simp add: after_stop_def model_defs fetch_error_message_def)

lemma after_failure_world:
  "run after_failure
     (step (FetchSettles NetworkError ''t01'') (run connected_trace initial_world)) =
     \<lparr> ui = \<lparr> isConnected = False, waterMovement = 12, isMonitoring = False,
              alertActive = False, isScanning = False, availableDevices = mockDevices,
              sensorData = body88, error = Some fetch_error_message,
              heartRateData = \<lparr> labels = [''t02''], datasets = [\<lparr> data = [JNum 88] \<rparr>] \<rparr> \<rparr>,
       interval = False, timeouts = [], prompts = 0, inflight = 0, crashed = None \<rparr>"
  unfolding connected_world
  by (simp add: after_failure_def body88_def model_defs fetch_error_message_def)

section \<open>The claims\<close>

text \<open>
  C1. A tick stores the value it drew and raises the alert flag when that value is above
  70. It never lowers the flag: after the tick the flag is set exactly when it was set
  before the tick or the value is above 70. The flag goes down only through the OK button
  of the dialog, \<open>toggleMonitoring\<close> and \<open>disconnectDevice\<close>.
\<close>

theorem alert_latches_on_tick:
  assumes "interval w" and "crashed w = None"
  shows "waterMovement (ui (step (IntervalFires rnd delta) w)) = newMovement rnd delta
       \<and> (alertActive (ui (step (IntervalFires rnd delta) w)) \<longleftrightarrow>
            alertActive (ui w) \<or> newMovement rnd delta > 70)"
  using assms by (simp add: step_tick monitoring_tick_def Let_def)

theorem alert_latches_on_tick_witness:
  "interval (run alert_trace initial_world) \<and> crashed (run alert_trace initial_world) = None
   \<and> waterMovement (ui (step (IntervalFires (1/8) 0) (run alert_trace initial_world))) = 12
   \<and> alertActive (ui (step (IntervalFires (1/8) 0) (run alert_trace initial_world)))"
  using alert_latches_on_tick [of "run alert_trace initial_world" "1/8" 0]
  by (simp add: alert_world newMovement_def)

text \<open>
  The flag is not a function of the last value alone. After a tick that drew 0.75 (value
  75) and was not acknowledged, a tick that draws 0.125 stores the value 12 and leaves the
  flag set.
\<close>

theorem alert_iff_above_threshold_counterexample:
  "interval (run alert_trace initial_world) \<and> crashed (run alert_trace initial_world) = None
   \<and> waterMovement (ui (step (IntervalFires (1/8) 0) (run alert_trace initial_world))) = 12
   \<and> \<not> (alertActive (ui (step (IntervalFires (1/8) 0) (run alert_trace initial_world))) \<longleftrightarrow>
          waterMovement (ui (step (IntervalFires (1/8) 0) (run alert_trace initial_world))) > 70)"
  unfolding alert_world
  by (simp add: step_def commit_def effects_def render_inputs_changed_def Let_def
      monitoring_tick_def newMovement_def)

text \<open>
  C2. In every state the component reaches, whatever the events and the answers to its
  requests, the chart holds at most ten labels and at most ten values. When a request
  settles with a 2xx response and a body that parses, one of two things happens. Either
  something throws while the new state is rendered (the updater on the body \<open>null\<close>,
  or \<open>renderSensorData\<close> on a body it cannot show): the component is unmounted and the
  chart it held is unchanged. Or the component stays mounted: then one label and one value
  were appended at the end, and when the chart held ten, the first label and the first
  value were dropped and the other nine kept their order.
\<close>

theorem heart_rate_window_fifo:
  assumes "w = run evs initial_world"
  shows "length (labels (heartRateData (ui w))) \<le> 10
       \<and> length (points (heartRateData (ui w))) \<le> 10
       \<and> (0 < inflight w \<and> crashed w = None \<and> response_ok status \<longrightarrow>
            (crashed (step (FetchSettles (Response status (Some d)) now) w) \<noteq> None \<longrightarrow>
               heartRateData (ui (step (FetchSettles (Response status (Some d)) now) w))
                 = heartRateData (ui w))
          \<and> (crashed (step (FetchSettles (Response status (Some d)) now) w) = None \<longrightarrow>
               (\<exists>v. heart_rate_red d = Inr v
                  \<and> labels (heartRateData
                        (ui (step (FetchSettles (Response status (Some d)) now) w))) =
                      (if length (labels (heartRateData (ui w))) = 10
                       then tl (labels (heartRateData (ui w)))
                       else labels (heartRateData (ui w))) @ [now]
                  \<and> points (heartRateData
                        (ui (step (FetchSettles (Response status (Some d)) now) w))) =
                      (if length (points (heartRateData (ui w))) = 10
                       then tl (points (heartRateData (ui w)))
                       else points (heartRateData (ui w))) @ [or_zero v])))"
proof -
  let ?w' = "step (FetchSettles (Response status (Some d)) now) w"
  have ok: "chart_ok (heartRateData (ui w))"
    unfolding assms by (rule run_chart_ok [OF initial_chart_ok])
  then have bounds: "length (labels (heartRateData (ui w))) \<le> 10"
    "length (points (heartRateData (ui w))) \<le> 10"
    by (simp_all add: chart_ok_def)
  have settle:
    "(crashed ?w' \<noteq> None \<longrightarrow> heartRateData (ui ?w') = heartRateData (ui w))
     \<and> (crashed ?w' = None \<longrightarrow>
          (\<exists>v. heart_rate_red d = Inr v
             \<and> labels (heartRateData (ui ?w')) =
                 (if length (labels (heartRateData (ui w))) = 10
                  then tl (labels (heartRateData (ui w)))
                  else labels (heartRateData (ui w))) @ [now]
             \<and> points (heartRateData (ui ?w')) =
                 (if length (points (heartRateData (ui w))) = 10
                  then tl (points (heartRateData (ui w)))
                  else points (heartRateData (ui w))) @ [or_zero v]))"
    if h: "0 < inflight w" "crashed w = None" "response_ok status"
  proof (cases "heart_rate_red d")
    case (Inl e)
    from fetchData_throws [OF h(3) Inl, of now "ui w"] h(1,2)
    show ?thesis by (simp add: step_def unmount_def)
  next
    case (Inr v)
    let ?s' = "(ui w)\<lparr> sensorData := d,
             heartRateData :=
               \<lparr> labels = (if length (labels (heartRateData (ui w))) = 10
                            then tl (labels (heartRateData (ui w)))
                            else labels (heartRateData (ui w))) @ [now],
                 datasets = [\<lparr> data = (if length (points (heartRateData (ui w))) = 10
                                         then tl (points (heartRateData (ui w)))
                                         else points (heartRateData (ui w))) @ [or_zero v] \<rparr>] \<rparr> \<rparr>"
    have w': "?w' = commit (w\<lparr> inflight := inflight w - 1 \<rparr>) ?s'"
      using fetchData_success [OF ok h(3) Inr, of now] h(1,2) by (simp add: step_def)
    show ?thesis
      unfolding w'
      by (rule commit_cases)
         (use h(2) Inr in \<open>simp_all add: ui_effects crashed_effects unmount_def points_def\<close>)
  qed
  with bounds show ?thesis by blast
qed

theorem heart_rate_window_fifo_witness:
  "length (labels (heartRateData (ui (run full_trace initial_world)))) = 10
   \<and> 0 < inflight (run full_trace initial_world)
   \<and> crashed (run full_trace initial_world) = None
   \<and> response_ok 200
   \<and> crashed (step (FetchSettles (Response 200 (Some body88)) ''t11'')
        (run full_trace initial_world)) = None
   \<and> labels (heartRateData (ui (step (FetchSettles (Response 200 (Some body88)) ''t11'')
        (run full_trace initial_world)))) =
       [''t02'', ''t03'', ''t04'', ''t05'', ''t06'', ''t07'', ''t08'', ''t09'', ''t10'', ''t11'']
   \<and> points (heartRateData (ui (step (FetchSettles (Response 200 (Some body88)) ''t11'')
        (run full_trace initial_world)))) =
       [JNum 88, JNum 88, JNum 88, JNum 88, JNum 88, JNum 88, JNum 88, JNum 88, JNum 88,
        JNum 88]
   \<and> crashed (step (FetchSettles (Response 200 (Some body_red_object)) ''t11'')
        (run full_trace initial_world)) = Some InvalidReactChild
   \<and> labels (heartRateData (ui (step (FetchSettles (Response 200 (Some body_red_object)) ''t11'')
        (run full_trace initial_world)))) =
       [''t01'', ''t02'', ''t03'', ''t04'', ''t05'', ''t06'', ''t07'', ''t08'', ''t09'', ''t10'']"
proof -
  let ?W = "run full_trace initial_world"
  have pre: "0 < inflight ?W \<and> crashed ?W = None \<and> response_ok 200"
    by (simp add: full_world response_ok_def)
  have c: "crashed (step (FetchSettles (Response 200 (Some body88)) ''t11'') ?W) = None"
    unfolding full_world by (simp add: body88_def model_defs)
  have c': "crashed (step (FetchSettles (Response 200 (Some body_red_object)) ''t11'') ?W)
      = Some InvalidReactChild"
    unfolding full_world by (simp add: body_red_object_def body88_def model_defs)
  have held: "labels (heartRateData (ui ?W)) =
        [''t01'', ''t02'', ''t03'', ''t04'', ''t05'', ''t06'', ''t07'', ''t08'', ''t09'', ''t10'']"
    "points (heartRateData (ui ?W)) =
        [JNum 88, JNum 88, JNum 88, JNum 88, JNum 88, JNum 88, JNum 88, JNum 88, JNum 88,
         JNum 88]"
    by (simp_all add: full_world points_def)
  from heart_rate_window_fifo [OF refl, of full_trace 200 body88 "''t11''"] pre c
  obtain v where v: "heart_rate_red body88 = Inr v"
    and l: "labels (heartRateData
          (ui (step (FetchSettles (Response 200 (Some body88)) ''t11'') ?W))) =
        tl (labels (heartRateData (ui ?W))) @ [''t11'']"
    and p: "points (heartRateData
          (ui (step (FetchSettles (Response 200 (Some body88)) ''t11'') ?W))) =
        tl (points (heartRateData (ui ?W))) @ [or_zero v]"
    by (auto simp: held)
  from v have "or_zero v = JNum 88"
    by (auto simp: heart_rate_red_def body88_def or_zero_def)
  with l p have appended:
    "labels (heartRateData (ui (step (FetchSettles (Response 200 (Some body88)) ''t11'') ?W))) =
       [''t02'', ''t03'', ''t04'', ''t05'', ''t06'', ''t07'', ''t08'', ''t09'', ''t10'', ''t11'']"
    "points (heartRateData (ui (step (FetchSettles (Response 200 (Some body88)) ''t11'') ?W))) =
       [JNum 88, JNum 88, JNum 88, JNum 88, JNum 88, JNum 88, JNum 88, JNum 88, JNum 88,
        JNum 88]"
    by (simp_all add: held)
  from heart_rate_window_fifo [OF refl, of full_trace 200 body_red_object "''t11''"] pre c'
  have "heartRateData
          (ui (step (FetchSettles (Response 200 (Some body_red_object)) ''t11'') ?W))
        = heartRateData (ui ?W)"
    by simp
  with held(1) have unchanged:
    "labels (heartRateData
        (ui (step (FetchSettles (Response 200 (Some body_red_object)) ''t11'') ?W))) =
       [''t01'', ''t02'', ''t03'', ''t04'', ''t05'', ''t06'', ''t07'', ''t08'', ''t09'', ''t10'']"
    by simp
  from pre c c' held(1) appended unchanged show ?thesis by simp
qed

text \<open>
  C3. Pressing the toggle while monitoring is on turns monitoring off, clears the alert
  flag and clears the interval. From then on, as long as the toggle is not pressed again,
  the interval stays cleared and the alert flag stays down, so an interval callback
  changes nothing: it does not run.
\<close>

theorem stop_clears_alert_and_timer:
  assumes "isMonitoring (ui w)" and "crashed w = None" and "PressToggle \<notin> set evs"
  shows "\<not> isMonitoring (ui (step PressToggle w))
       \<and> \<not> alertActive (ui (step PressToggle w))
       \<and> \<not> interval (step PressToggle w)
       \<and> \<not> interval (run evs (step PressToggle w))
       \<and> \<not> alertActive (ui (run evs (step PressToggle w)))
       \<and> step (IntervalFires rnd delta) (run evs (step PressToggle w))
           = run evs (step PressToggle w)"
proof -
  have "step PressToggle w = effects w (toggleMonitoring (ui w))"
    using assms(2) by (simp add: step_def commit_handlers)
  then have s0: "stopped (step PressToggle w)"
    using assms(1)
    by (simp add: stopped_def ui_effects interval_effects toggleMonitoring_def Let_def)
  then have s1: "stopped (run evs (step PressToggle w))"
    using assms(3) by (rule run_stopped)
  have "step (IntervalFires rnd delta) (run evs (step PressToggle w))
          = run evs (step PressToggle w)"
    using s1 by (simp add: stopped_def step_def)
  with s0 s1 show ?thesis by (simp add: stopped_def)
qed

theorem stop_clears_alert_and_timer_witness:
  "isMonitoring (ui (run alert_trace initial_world))
   \<and> alertActive (ui (run alert_trace initial_world))
   \<and> interval (run alert_trace initial_world)
   \<and> crashed (run alert_trace initial_world) = None
   \<and> PressToggle \<notin> set after_stop
   \<and> \<not> alertActive (ui (step PressToggle (run alert_trace initial_world)))
   \<and> \<not> interval (step PressToggle (run alert_trace initial_world))
   \<and> waterMovement (ui (run after_stop (step PressToggle (run alert_trace initial_world)))) = 75"
proof -
  have h1: "isMonitoring (ui (run alert_trace initial_world))"
    and h2: "crashed (run alert_trace initial_world) = None"
    and h3: "PressToggle \<notin> set after_stop"
    and h4: "alertActive (ui (run alert_trace initial_world))"
    and h5: "interval (run alert_trace initial_world)"
    by (simp_all add: alert_world after_stop_def)
  have e: "waterMovement (ui (run after_stop (step PressToggle (run alert_trace initial_world))))
            = 75"
    by (simp add: after_stop_world)
  show ?thesis
    using h1 h2 h3 h4 h5 e stop_clears_alert_and_timer [OF h1 h2 h3, of "7/8" 0]
    by simp
qed

text \<open>
  C4. A fetch that fails (rejected request, status outside 200 to 299, body that does not
  parse) sets \<open>error\<close> to the one message and changes no other state variable:
  \<open>sensorData\<close>, the chart and the rest are what they were.
\<close>

theorem failed_fetch_only_sets_error:
  assumes "fetch_fails r"
  shows "fetchData r now s = Inr (s\<lparr> error := Some fetch_error_message \<rparr>)
       \<and> (0 < inflight w \<and> crashed w = None \<longrightarrow>
            ui (step (FetchSettles r now) w) = (ui w)\<lparr> error := Some fetch_error_message \<rparr>)"
  using assms by (simp add: fetchData_failure step_def commit_failure ui_effects)

theorem failed_fetch_only_sets_error_witness:
  "fetch_fails (Response 503 (Some body88))
   \<and> 0 < inflight (run full_trace initial_world) \<and> crashed (run full_trace initial_world) = None
   \<and> sensorData (ui (step (FetchSettles (Response 503 (Some body88)) ''t11'')
        (run full_trace initial_world))) = body88
   \<and> length (labels (heartRateData (ui (step (FetchSettles (Response 503 (Some body88)) ''t11'')
        (run full_trace initial_world))))) = 10
   \<and> error (ui (step (FetchSettles (Response 503 (Some body88)) ''t11'')
        (run full_trace initial_world))) = Some fetch_error_message"
  using failed_fetch_only_sets_error [of "Response 503 (Some body88)" "''t11''"
      "ui (run full_trace initial_world)" "run full_trace initial_world"]
  by (simp add: full_world fetch_fails_def response_ok_def)

text \<open>
  C5. In every state the component reaches, a successful fetch with the body
  \<open>{heart_rate:{red:88}}\<close> sets \<open>sensorData\<close> to that body and appends one label (the
  time) and the value 88 to the chart, after dropping the first label and value when the
  chart held ten. Nothing else changes.
\<close>

theorem fetch_88_appends_point:
  assumes "response_ok status" and "s = ui (run evs initial_world)"
  shows "fetchData (Response status (Some body88)) now s =
     Inr (s\<lparr> sensorData := body88,
             heartRateData :=
               \<lparr> labels = (if length (labels (heartRateData s)) = 10
                            then tl (labels (heartRateData s)) else labels (heartRateData s)) @ [now],
                 datasets = [\<lparr> data = (if length (points (heartRateData s)) = 10
                                         then tl (points (heartRateData s))
                                         else points (heartRateData s)) @ [JNum 88] \<rparr>] \<rparr> \<rparr>)"
proof -
  have ok: "chart_ok (heartRateData s)"
    unfolding assms(2) by (rule run_chart_ok [OF initial_chart_ok])
  have red: "heart_rate_red body88 = Inr (Some (JNum 88))"
    by (simp add: heart_rate_red_def body88_def)
  show ?thesis
    using fetchData_success [OF ok assms(1) red, of now] by (simp add: or_zero_def)
qed

theorem fetch_88_appends_point_witness:
  "response_ok 200 \<and>
   fetchData (Response 200 (Some body88)) ''t11'' (ui (run full_trace initial_world)) =
     Inr ((ui (run full_trace initial_world))
           \<lparr> sensorData := body88,
             heartRateData :=
               \<lparr> labels = [''t02'', ''t03'', ''t04'', ''t05'', ''t06'', ''t07'', ''t08'', ''t09'',
                           ''t10'', ''t11''],
                 datasets = [\<lparr> data = [JNum 88, JNum 88, JNum 88, JNum 88, JNum 88, JNum 88,
                                         JNum 88, JNum 88, JNum 88, JNum 88] \<rparr>] \<rparr> \<rparr>)"
  using fetch_88_appends_point [of 200 "ui (run full_trace initial_world)" full_trace "''t11''"]
  by (simp add: full_world points_def response_ok_def)

text \<open>
  C6. A tick stores an integer between 0 and 99: for every double \<open>rnd\<close> in \<open>[0,1)\<close>
  that \<open>Math.random()\<close> can return and every rounding of the product, the value stored
  by the tick is \<open>Math.floor\<close> of the product and lies in \<open>[0,100)\<close>.
\<close>

theorem tick_value_in_range:
  assumes "0 \<le> rnd" and "rnd \<le> 1 - unit_roundoff" and "\<bar>delta\<bar> \<le> unit_roundoff"
    and "interval w" and "crashed w = None"
  shows "waterMovement (ui (step (IntervalFires rnd delta) w)) = \<lfloor>rnd * 100 * (1 + delta)\<rfloor>
       \<and> 0 \<le> waterMovement (ui (step (IntervalFires rnd delta) w))
       \<and> waterMovement (ui (step (IntervalFires rnd delta) w)) \<le> 99"
  using assms(4,5) newMovement_range [OF assms(1,2,3)]
  by (simp add: step_tick monitoring_tick_def Let_def newMovement_def)

text \<open>The largest double below 1, with the product rounded up as far as it can be.\<close>

theorem tick_value_in_range_witness:
  "(0::real) \<le> 1 - unit_roundoff \<and> \<bar>unit_roundoff\<bar> \<le> unit_roundoff
   \<and> interval (run alert_trace initial_world) \<and> crashed (run alert_trace initial_world) = None
   \<and> waterMovement (ui (step (IntervalFires (1 - unit_roundoff) unit_roundoff)
        (run alert_trace initial_world))) = 99"
  using tick_value_in_range [of "1 - unit_roundoff" unit_roundoff "run alert_trace initial_world"]
  unfolding alert_world by (simp add: unit_roundoff_def)

text \<open>
  C7. \<open>disconnectDevice\<close> is defined on every state and leaves \<open>isConnected\<close>,
  \<open>isMonitoring\<close> and \<open>alertActive\<close> false; pressing Disconnect runs it.
\<close>

theorem disconnect_clears_flags:
  "\<not> isConnected (disconnectDevice s) \<and> \<not> isMonitoring (disconnectDevice s)
   \<and> \<not> alertActive (disconnectDevice s)
   \<and> (crashed w = None \<longrightarrow> ui (step PressDisconnect w) = disconnectDevice (ui w))"
proof -
  have "ui (step PressDisconnect w) = disconnectDevice (ui w)" if "crashed w = None"
    using that by (simp add: step_def commit_handlers ui_effects)
  then show ?thesis by (simp add: disconnectDevice_def)
qed

theorem disconnect_clears_flags_witness:
  "isConnected (ui (run alert_trace initial_world))
   \<and> isMonitoring (ui (run alert_trace initial_world))
   \<and> alertActive (ui (run alert_trace initial_world))
   \<and> crashed (run alert_trace initial_world) = None
   \<and> \<not> isConnected (ui (step PressDisconnect (run alert_trace initial_world)))
   \<and> \<not> isMonitoring (ui (step PressDisconnect (run alert_trace initial_world)))
   \<and> \<not> alertActive (ui (step PressDisconnect (run alert_trace initial_world)))"
  using disconnect_clears_flags [of "ui (run alert_trace initial_world)"
      "run alert_trace initial_world"]
  by (simp add: alert_world)

text \<open>
  C8. Pressing Scan sets \<open>isScanning\<close> and registers one timeout of 2000 ms. When that
  timeout fires, in whatever state the component is by then, \<open>availableDevices\<close> becomes
  the mock list and \<open>isScanning\<close> is cleared; there is no other outcome. The mock list
  has the ids 001, 002, 003, each with a name and a signal strength from 0 to 100.
\<close>

theorem scan_lists_three_devices:
  "(crashed w = None \<longrightarrow>
      isScanning (ui (step PressScan w))
      \<and> timeouts (step PressScan w) = timeouts w @ [(2000, ScanDone)])
   \<and> (crashed w' = None \<and> k < length (timeouts w') \<and> timeouts w' ! k = (2000, ScanDone) \<longrightarrow>
        availableDevices (ui (step (TimeoutFires k) w')) = mockDevices
        \<and> \<not> isScanning (ui (step (TimeoutFires k) w'))
        \<and> crashed (step (TimeoutFires k) w') = None)
   \<and> map id' mockDevices = [''001'', ''002'', ''003'']
   \<and> (\<forall>dev \<in> set mockDevices.
         name dev \<noteq> [] \<and> 0 \<le> signalStrength dev \<and> signalStrength dev \<le> 100)"
proof -
  have scan: "isScanning (ui (step PressScan w))
      \<and> timeouts (step PressScan w) = timeouts w @ [(2000, ScanDone)]" if "crashed w = None"
  proof -
    have "step PressScan w =
        (effects w (scanForDevices (ui w)))\<lparr> timeouts := timeouts w @ [(2000, ScanDone)] \<rparr>"
      using that by (simp add: step_def commit_handlers)
    then show ?thesis by (simp add: ui_effects scanForDevices_def)
  qed
  have fired: "availableDevices (ui (step (TimeoutFires k) w')) = mockDevices
        \<and> \<not> isScanning (ui (step (TimeoutFires k) w'))
        \<and> crashed (step (TimeoutFires k) w') = None"
    if "crashed w' = None" "k < length (timeouts w')" "timeouts w' ! k = (2000, ScanDone)"
  proof -
    have "step (TimeoutFires k) w' =
        effects (w'\<lparr> timeouts := remove_nth k (timeouts w') \<rparr>) (scanForDevices_timeout (ui w'))"
      using that by (simp add: step_def Let_def commit_handlers)
    then show ?thesis
      using that(1) by (simp add: ui_effects crashed_effects scanForDevices_timeout_def)
  qed
  from scan fired show ?thesis by (simp add: mockDevices_def)
qed

theorem scan_lists_three_devices_witness:
  "crashed initial_world = None
   \<and> isScanning (ui (step PressScan initial_world))
   \<and> timeouts (step PressScan initial_world) = [(2000, ScanDone)]
   \<and> availableDevices (ui (step (TimeoutFires 0) (step PressScan initial_world))) = mockDevices
   \<and> \<not> isScanning (ui (step (TimeoutFires 0) (step PressScan initial_world)))
   \<and> length (availableDevices (ui (step (TimeoutFires 0) (step PressScan initial_world)))) = 3"
proof -
  have w1: "step PressScan initial_world =
     \<lparr> ui = initial_state\<lparr> isScanning := True \<rparr>, interval = False,
       timeouts = [(2000, ScanDone)], prompts = 0, inflight = 0, crashed = None \<rparr>"
    by (simp add: initial_world_def step_def commit_def effects_def render_inputs_changed_def
        Let_def scanForDevices_def)
  have h: "crashed (step PressScan initial_world) = None
       \<and> 0 < length (timeouts (step PressScan initial_world))
       \<and> timeouts (step PressScan initial_world) ! 0 = (2000, ScanDone)"
    by (simp add: w1)
  have h0: "crashed initial_world = None" "timeouts initial_world = []"
    by (simp_all add: initial_world_def)
  show ?thesis
    using h h0 scan_lists_three_devices [of initial_world "step PressScan initial_world" 0]
    by (simp add: mockDevices_def)
qed



text \<open>
  The same end on \<open>{mpu6050:{}}\<close>, by another way: the updater appends the value 0, but
  the render of the new state reads \<open>.x\<close> of the missing \<open>gyroscope\<close> and throws, so the
  state with the new point is never held.
\<close>

lemma empty_mpu6050_unmounts:
  "lacks_red body_empty_mpu6050
   \<and> fetchData (Response 200 (Some body_empty_mpu6050)) ''t01''
        (ui (run connected_trace initial_world)) =
       Inr ((ui (run connected_trace initial_world))
             \<lparr> sensorData := body_empty_mpu6050,
               heartRateData := \<lparr> labels = [''t01''], datasets = [\<lparr> data = [JNum 0] \<rparr>] \<rparr> \<rparr>)
   \<and> crashed (step (FetchSettles (Response 200 (Some body_empty_mpu6050)) ''t01'')
        (run connected_trace initial_world)) = Some TypeError
   \<and> points (heartRateData (ui (step (FetchSettles (Response 200 (Some body_empty_mpu6050))
        ''t01'') (run connected_trace initial_world)))) = []"
  unfolding connected_world
  by (simp add: body_empty_mpu6050_def lacks_red_def points_def model_defs)

text \<open>
  Where nothing throws, the claim holds: in every state the component reaches, a
  successful fetch whose body has no usable \<open>heart_rate.red\<close> and after which the
  component is still mounted has appended the value 0.
\<close>

lemma missing_red_recorded_as_zero:
  assumes "w = run evs initial_world" and "0 < inflight w" and "crashed w = None"
    and "response_ok status" and "lacks_red d"
    and "crashed (step (FetchSettles (Response status (Some d)) now) w) = None"
  shows "labels (heartRateData (ui (step (FetchSettles (Response status (Some d)) now) w))) =
           (if length (labels (heartRateData (ui w))) = 10
            then tl (labels (heartRateData (ui w)))
            else labels (heartRateData (ui w))) @ [now]
       \<and> points (heartRateData (ui (step (FetchSettles (Response status (Some d)) now) w))) =
           (if length (points (heartRateData (ui w))) = 10
            then tl (points (heartRateData (ui w)))
            else points (heartRateData (ui w))) @ [JNum 0]"
proof -
  let ?w' = "step (FetchSettles (Response status (Some d)) now) w"
  have ok: "chart_ok (heartRateData (ui w))"
    unfolding assms(1) by (rule run_chart_ok [OF initial_chart_ok])
  have "d \<noteq> JNull"
  proof
    assume "d = JNull"
    then have "heart_rate_red d = Inl TypeError" by (simp add: heart_rate_red_def)
    from fetchData_throws [OF assms(4) this, of now "ui w"] assms(2,3,6)
    show False by (simp add: step_def unmount_def)
  qed
  from lacks_red_zero [OF this assms(5)]
  obtain v where v: "heart_rate_red d = Inr v" "or_zero v = JNum 0" by blast
  let ?s' = "(ui w)\<lparr> sensorData := d,
             heartRateData :=
               \<lparr> labels = (if length (labels (heartRateData (ui w))) = 10
                            then tl (labels (heartRateData (ui w)))
                            else labels (heartRateData (ui w))) @ [now],
                 datasets = [\<lparr> data = (if length (points (heartRateData (ui w))) = 10
                                         then tl (points (heartRateData (ui w)))
                                         else points (heartRateData (ui w))) @ [JNum 0] \<rparr>] \<rparr> \<rparr>"
  have w': "?w' = commit (w\<lparr> inflight := inflight w - 1 \<rparr>) ?s'"
    using fetchData_success [OF ok assms(4) v(1), of now] v(2) assms(2,3)
    by (simp add: step_def)
  have "crashed ?w' = None \<longrightarrow> ui ?w' = ?s'"
    unfolding w' by (rule commit_cases) (simp_all add: ui_effects unmount_def)
  with assms(6) show ?thesis by (simp add: points_def)
qed

lemma red_zero_recorded_as_zero:
  "lacks_red body_red_zero
   \<and> crashed (step (FetchSettles (Response 200 (Some body_red_zero)) ''t11'')
        (run full_trace initial_world)) = None
   \<and> points (heartRateData (ui (step (FetchSettles (Response 200 (Some body_red_zero)) ''t11'')
        (run full_trace initial_world)))) =
       [JNum 88, JNum 88, JNum 88, JNum 88, JNum 88, JNum 88, JNum 88, JNum 88, JNum 88,
        JNum 0]"
  unfolding full_world
  by (simp add: body_red_zero_def lacks_red_def points_def model_defs)

text \<open>
  C10. Once a failed fetch has set \<open>error\<close>, no later event changes it: after any
  further events (successful fetches, the toggle, Disconnect among them) \<open>error\<close> still
  holds the message, and \<open>renderSensorData\<close> returns the error view, not the sensor view.
\<close>

theorem error_message_is_sticky:
  assumes "fetch_fails r" and "0 < inflight w" and "crashed w = None"
  shows "error (ui (run evs (step (FetchSettles r now) w))) = Some fetch_error_message
       \<and> renderSensorData (ui (run evs (step (FetchSettles r now) w)))
           = Inr (ErrorView fetch_error_message)"
proof -
  have "error (ui (step (FetchSettles r now) w)) = Some fetch_error_message"
    using assms by (simp add: step_def fetchData_failure commit_failure ui_effects)
  then have "error (ui (run evs (step (FetchSettles r now) w))) = Some fetch_error_message"
    by (rule run_error)
  then show ?thesis by (simp add: renderSensorData_error)
qed

theorem error_message_is_sticky_witness:
  "fetch_fails NetworkError
   \<and> 0 < inflight (run connected_trace initial_world)
   \<and> crashed (run connected_trace initial_world) = None
   \<and> sensorData (ui (run after_failure
        (step (FetchSettles NetworkError ''t01'') (run connected_trace initial_world)))) = body88
   \<and> renderSensorData (ui (run after_failure
        (step (FetchSettles NetworkError ''t01'') (run connected_trace initial_world))))
       = Inr (ErrorView fetch_error_message)"
proof -
  have h1: "fetch_fails NetworkError"
    and h2: "0 < inflight (run connected_trace initial_world)"
    and h3: "crashed (run connected_trace initial_world) = None"
    by (simp_all add: fetch_fails_def connected_world)
  have e: "sensorData (ui (run after_failure
        (step (FetchSettles NetworkError ''t01'') (run connected_trace initial_world)))) = body88"
    by (simp add: after_failure_world)
  show ?thesis
    using h1 h2 h3 e error_message_is_sticky [OF h1 h2 h3, of after_failure "''t01''"]
    by simp
qed

end
